theory Spec2Isabelle
  imports Complex_Main
begin

section \<open>Record model\<close>

text \<open>
  The type declarations of \<^verbatim>\<open>src/lib/types.ts\<close>: \<^verbatim>\<open>Category\<close> and \<^verbatim>\<open>PaymentMethod\<close> are
  unions of string literals, \<^verbatim>\<open>Expense\<close> and \<^verbatim>\<open>MonthlyBudget\<close> are interfaces. An
  optional field (\<^verbatim>\<open>tag?: string\<close>) is an \<open>option\<close>; \<open>None\<close> is \<^verbatim>\<open>undefined\<close>.

  A JavaScript \<^verbatim>\<open>number\<close> is a real number. The functions of the aggregation are
  written twice where the rounding of the additions matters: with exact sums, and
  (\<open>getTotalAmount_ieee\<close>, \<open>getCategoryTotals_ieee\<close>) with the sum of two doubles rounded
  to the nearest double as the code computes it.
\<close>

datatype category =
  Food | Travel | Shopping | Rent | Entertainment | Utilities | Health | Other

datatype paymentMethod = Cash | Card | Upi | Bank

record expense =
  id_e :: string
  date :: string
  category :: category
  description :: string
  amount :: real
  paymentMethod :: paymentMethod
  tag :: "string option"
  createdAt :: string

record monthlyBudget =
  budget_month :: string
  budget_amount :: real


section \<open>Aggregation: \<^verbatim>\<open>src/lib/calculations.ts\<close>\<close>

subsection \<open>Sum and percentage change\<close>

text \<open>
  \<^verbatim>\<open>expenses.reduce((sum, expense) => sum + expense.amount, 0)\<close>, the additions exact.
  The same with the additions of doubles is \<open>getTotalAmount_ieee\<close> below.
\<close>

definition getTotalAmount :: "expense list \<Rightarrow> real" where
  "getTotalAmount expenses = foldl (\<lambda>sum e. sum + amount e) 0 expenses"

definition getPercentageChange :: "real \<Rightarrow> real \<Rightarrow> real" where
  "getPercentageChange current previous =
     (if previous = 0 then (if current > 0 then 100 else 0)
      else ((current - previous) / previous) * 100)"

subsection \<open>Category totals\<close>









subsection \<open>Top category\<close>




subsection \<open>The additions of the code: IEEE 754 doubles\<close>










subsection \<open>Dates: the functions of \<^verbatim>\<open>date-fns\<close> that the module calls\<close>

text \<open>
  A \<^verbatim>\<open>Date\<close> is its local calendar fields: the year, the month index (0 is January,
  as \<^verbatim>\<open>getMonth()\<close> returns it), the day of the month and the milliseconds since
  local midnight. Two dates compare (\<^verbatim>\<open>>=\<close>, \<^verbatim>\<open><=\<close>) by their time value, which is
  the lexicographic order of these fields; time zones and daylight saving are not
  modelled. \<^verbatim>\<open>new Date()\<close> is the parameter \<open>now\<close> of every function that reads the
  clock; one call of \<^verbatim>\<open>getMonthlyTotals\<close> reads the same instant in every iteration.
\<close>

record jsDate =
  getFullYear :: int
  getMonth :: nat
  getDate :: nat
  msOfDay :: nat

definition isLeapYear :: "int \<Rightarrow> bool" where
  "isLeapYear y = (y mod 400 = 0 \<or> (y mod 4 = 0 \<and> y mod 100 \<noteq> 0))"

definition daysInMonth :: "int \<Rightarrow> nat \<Rightarrow> nat" where
  "daysInMonth y m =
     (if m = 1 then (if isLeapYear y then 29 else 28)
      else if m = 3 \<or> m = 5 \<or> m = 8 \<or> m = 10 then 30 else 31)"

text \<open>The dates a \<^verbatim>\<open>Date\<close> object can hold (an Invalid Date apart).\<close>

definition valid_date :: "jsDate \<Rightarrow> bool" where
  "valid_date d =
     (getMonth d < 12 \<and> 1 \<le> getDate d \<and>
      getDate d \<le> daysInMonth (getFullYear d) (getMonth d) \<and> msOfDay d < 86400000)"

definition date_le :: "jsDate \<Rightarrow> jsDate \<Rightarrow> bool" where
  "date_le a b =
     (getFullYear a < getFullYear b \<or>
      (getFullYear a = getFullYear b \<and>
        (getMonth a < getMonth b \<or>
         (getMonth a = getMonth b \<and>
           (getDate a < getDate b \<or>
            (getDate a = getDate b \<and> msOfDay a \<le> msOfDay b))))))"

text \<open>\<^verbatim>\<open>startOfMonth\<close>: the first day at 00:00:00.000; \<^verbatim>\<open>endOfMonth\<close>: the last day at
  23:59:59.999.\<close>

definition startOfMonth :: "jsDate \<Rightarrow> jsDate" where
  "startOfMonth d = d\<lparr>getDate := 1, msOfDay := 0\<rparr>"

definition endOfMonth :: "jsDate \<Rightarrow> jsDate" where
  "endOfMonth d =
     d\<lparr>getDate := daysInMonth (getFullYear d) (getMonth d), msOfDay := 86399999\<rparr>"

text \<open>
  \<^verbatim>\<open>subMonths(date, n)\<close> is \<^verbatim>\<open>addMonths(date, -n)\<close>: the date itself when \<open>n\<close> is 0;
  otherwise the same day and time in the month \<open>n\<close> months earlier, the day cut down to
  the last day of that month when the month is shorter.
\<close>

definition monthIndex :: "jsDate \<Rightarrow> int" where
  "monthIndex d = getFullYear d * 12 + int (getMonth d)"

definition subMonths :: "jsDate \<Rightarrow> int \<Rightarrow> jsDate" where
  "subMonths d n =
     (if n = 0 then d
      else let desired = monthIndex d - n;
               y = desired div 12;
               m = nat (desired mod 12)
           in \<lparr>getFullYear = y, getMonth = m,
               getDate = min (getDate d) (daysInMonth y m), msOfDay = msOfDay d\<rparr>)"

text \<open>
  \<^verbatim>\<open>parseISO\<close> on the strings the \<^verbatim>\<open>date\<close> column and the date input produce: a
  calendar date \<^verbatim>\<open>yyyy-MM-dd\<close>, read as local midnight of that day. A string of another
  shape, or one that names no day of the calendar (\<^verbatim>\<open>2023-02-29\<close>), gives \<open>None\<close>: the
  Invalid Date, which compares false with every date. The other ISO 8601 forms that
  the library accepts (times, week dates) are outside this model.
\<close>

definition digit_of :: "char \<Rightarrow> nat option" where
  "digit_of c =
     (if 48 \<le> (of_char c :: nat) \<and> (of_char c :: nat) \<le> 57
      then Some (of_char c - 48) else None)"

fun number_from :: "nat \<Rightarrow> string \<Rightarrow> nat option" where
  "number_from acc [] = Some acc"
| "number_from acc (c # cs) =
     (case digit_of c of
        None \<Rightarrow> None
      | Some v \<Rightarrow> number_from (10 * acc + v) cs)"

definition parseISO :: "string \<Rightarrow> jsDate option" where
  "parseISO s =
     (if length s = 10 \<and> s ! 4 = CHR ''-'' \<and> s ! 7 = CHR ''-''
      then (case number_from 0 (take 4 s) of
              None \<Rightarrow> None
            | Some y \<Rightarrow>
               (case number_from 0 (take 2 (drop 5 s)) of
                  None \<Rightarrow> None
                | Some m \<Rightarrow>
                   (case number_from 0 (drop 8 s) of
                      None \<Rightarrow> None
                    | Some dd \<Rightarrow>
                       (if 1 \<le> m \<and> m \<le> 12 \<and> 1 \<le> dd \<and> dd \<le> daysInMonth (int y) (m - 1)
                        then Some \<lparr>getFullYear = int y, getMonth = m - 1,
                                    getDate = dd, msOfDay = 0\<rparr>
                        else None))))
      else None)"

text \<open>
  \<^verbatim>\<open>format(date, "MMM yyyy")\<close>: the English three-letter month name, a space, and the
  year of the era in at least four digits. The month index of a \<^verbatim>\<open>Date\<close> is below 12.
\<close>

definition monthNames :: "string list" where
  "monthNames = [''Jan'', ''Feb'', ''Mar'', ''Apr'', ''May'', ''Jun'',
                 ''Jul'', ''Aug'', ''Sep'', ''Oct'', ''Nov'', ''Dec'']"

definition digit_char :: "nat \<Rightarrow> char" where
  "digit_char n = ''0123456789'' ! n"

fun show_nat :: "nat \<Rightarrow> string" where
  "show_nat n =
     (if n < 10 then [digit_char n]
      else show_nat (n div 10) @ [digit_char (n mod 10)])"

definition addLeadingZeros :: "nat \<Rightarrow> nat \<Rightarrow> string" where
  "addLeadingZeros n targetLength =
     replicate (targetLength - length (show_nat n)) CHR ''0'' @ show_nat n"

definition format_MMM_yyyy :: "jsDate \<Rightarrow> string" where
  "format_MMM_yyyy d =
     (let y = getFullYear d
      in (if getMonth d < 12 then monthNames ! getMonth d else [])
         @ '' '' @ addLeadingZeros (nat (if y > 0 then y else 1 - y)) 4)"

subsection \<open>Monthly totals and the average monthly spend\<close>

text \<open>
  The entries of \<^verbatim>\<open>getMonthlyTotals\<close> are \<^verbatim>\<open>{ month, total }\<close>. \<open>in_month d\<close> is the
  predicate of the \<^verbatim>\<open>filter\<close> in the loop body, with \<open>d\<close> the date of the iteration;
  \<open>month_entry\<close> is the loop body, \<open>monthly_loop\<close> the \<^verbatim>\<open>for\<close> loop that counts \<open>i\<close>
  down from \<open>monthsBack - 1\<close> to 0 and pushes one entry each time. The variable
  \<^verbatim>\<open>monthKey\<close> of the source is never read.
\<close>

record monthlyTotal =
  month :: string
  total_v :: real

definition in_month :: "jsDate \<Rightarrow> expense \<Rightarrow> bool" where
  "in_month d e =
     (case parseISO (date e) of
        None \<Rightarrow> False
      | Some expenseDate \<Rightarrow>
          date_le (startOfMonth d) expenseDate \<and> date_le expenseDate (endOfMonth d))"

definition month_entry :: "jsDate \<Rightarrow> expense list \<Rightarrow> int \<Rightarrow> monthlyTotal" where
  "month_entry now expenses i =
     (let d = subMonths now i;
          monthStr = format_MMM_yyyy d;
          monthExpenses = filter (in_month d) expenses
      in \<lparr>month = monthStr, total_v = getTotalAmount monthExpenses\<rparr>)"

function monthly_loop ::
  "jsDate \<Rightarrow> expense list \<Rightarrow> int \<Rightarrow> monthlyTotal list \<Rightarrow> monthlyTotal list" where
  "monthly_loop now expenses i result =
     (if i \<ge> 0
      then monthly_loop now expenses (i - 1) (result @ [month_entry now expenses i])
      else result)"
  by pat_completeness auto
termination
  by (relation "measure (\<lambda>(now, expenses, i, result). nat (i + 1))") auto

declare monthly_loop.simps [simp del]

definition getMonthlyTotals :: "jsDate \<Rightarrow> expense list \<Rightarrow> int \<Rightarrow> monthlyTotal list" where
  "getMonthlyTotals now expenses monthsBack = monthly_loop now expenses (monthsBack - 1) []"

definition getAverageMonthlySpend :: "jsDate \<Rightarrow> expense list \<Rightarrow> real" where
  "getAverageMonthlySpend now expenses =
     (let monthlyTotals = getMonthlyTotals now expenses 12;
          nonZeroMonths = filter (\<lambda>m. total_v m > 0) monthlyTotals
      in if length nonZeroMonths = 0 then 0
         else foldl (\<lambda>sum m. sum + total_v m) 0 nonZeroMonths / real (length nonZeroMonths))"

text \<open>
  The specification's words for the expenses of a calendar month: those whose date is
  a day of the month \<open>m\<close> (an index from 0) of the year \<open>y\<close>.
\<close>

definition dated_in :: "int \<Rightarrow> nat \<Rightarrow> expense \<Rightarrow> bool" where
  "dated_in y m e =
     (case parseISO (date e) of
        None \<Rightarrow> False
      | Some x \<Rightarrow> getFullYear x = y \<and> getMonth x = m)"


section \<open>Persistence: \<^verbatim>\<open>src/lib/storage.ts\<close>\<close>

subsection \<open>Errors, promises and the browser's local storage\<close>

text \<open>
  An error value is what a \<^verbatim>\<open>throw\<close> carries: the error object that the remote store
  answers with, the \<^verbatim>\<open>SyntaxError\<close> of \<^verbatim>\<open>JSON.parse\<close>, or the \<^verbatim>\<open>Error("No user")\<close> of
  the dashboard. A synchronous function that can throw returns \<open>js_error + 'a\<close>, with
  \<open>Inl\<close> the exception; an \<^verbatim>\<open>async\<close> function settles as a \<open>promise\<close>.
\<close>

datatype js_error = PostgrestError string | SyntaxError string | NoUser

datatype 'a promise = Resolved 'a | Rejected js_error

text \<open>
  \<^verbatim>\<open>localStorage\<close> maps keys to strings: \<^verbatim>\<open>getItem\<close> is application (\<open>None\<close> is
  \<^verbatim>\<open>null\<close>), \<^verbatim>\<open>removeItem\<close> and \<^verbatim>\<open>setItem\<close> update one key.
\<close>

type_synonym localStorage = "string \<rightharpoonup> string"

definition EXPENSES_KEY :: string where
  "EXPENSES_KEY = ''expense-tracker-expenses''"

definition BUDGETS_KEY :: string where
  "BUDGETS_KEY = ''expense-tracker-budgets''"

definition removeItem :: "string \<Rightarrow> localStorage \<Rightarrow> localStorage" where
  "removeItem k ls = ls(k := None)"

definition setItem :: "string \<Rightarrow> string \<Rightarrow> localStorage \<Rightarrow> localStorage" where
  "setItem k v ls = ls(k \<mapsto> v)"

text \<open>
  \<^verbatim>\<open>JSON.parse\<close> is a parameter of the functions that call it: \<open>parse_expenses\<close> and
  \<open>parse_budgets\<close> give the list that a stored text denotes, or the exception.
  \<^verbatim>\<open>data ? JSON.parse(data) : []\<close> is the empty list for a missing key and for the
  empty string, which is falsy.
\<close>

record json =
  parse_expenses :: "string \<Rightarrow> js_error + expense list"
  parse_budgets :: "string \<Rightarrow> js_error + monthlyBudget list"

definition storage_getExpenses :: "json \<Rightarrow> localStorage \<Rightarrow> js_error + expense list" where
  "storage_getExpenses js ls =
     (case ls EXPENSES_KEY of
        None \<Rightarrow> Inr []
      | Some data \<Rightarrow> if data = [] then Inr [] else parse_expenses js data)"

definition storage_getBudgets :: "json \<Rightarrow> localStorage \<Rightarrow> js_error + monthlyBudget list" where
  "storage_getBudgets js ls =
     (case ls BUDGETS_KEY of
        None \<Rightarrow> Inr []
      | Some data \<Rightarrow> if data = [] then Inr [] else parse_budgets js data)"

subsection \<open>The remote store\<close>

text \<open>
  The object given to \<^verbatim>\<open>insert\<close> on the table \<^verbatim>\<open>expenses\<close>: the migration gives the
  columns \<^verbatim>\<open>id\<close> and \<^verbatim>\<open>created_at\<close>, \<^verbatim>\<open>addExpense\<close> leaves them to the store. The
  object given to \<^verbatim>\<open>update\<close> holds only the columns to set.

  The store is an external service. Each operation of the client is a parameter of
  the function that calls it: from the request and the state \<open>'db\<close> of the service it
  gives the \<^verbatim>\<open>error\<close> field of the answer (\<open>None\<close> when the request succeeded) and the
  new state.
\<close>

record expense_insert =
  ins_id :: "string option"
  ins_user_id :: string
  ins_date :: string
  ins_category :: category
  ins_description :: string
  ins_amount :: real
  ins_payment_method :: paymentMethod
  ins_tag :: "string option"
  ins_created_at :: "string option"

record budget_insert =
  b_user_id :: string
  b_month :: string
  b_amount :: real

record expense_updates =
  u_date :: "string option"
  u_category :: "category option"
  u_description :: "string option"
  u_amount :: "real option"
  u_payment_method :: "paymentMethod option"
  u_tag :: "string option"

type_synonym ('row, 'db) insert_op = "'row list \<Rightarrow> 'db \<Rightarrow> js_error option \<times> 'db"

type_synonym 'db update_op = "expense_updates \<Rightarrow> string \<Rightarrow> 'db \<Rightarrow> js_error option \<times> 'db"

subsection \<open>\<^verbatim>\<open>supabaseStorage.addExpense\<close> and \<^verbatim>\<open>supabaseStorage.updateExpense\<close>\<close>

text \<open>
  \<^verbatim>\<open>addExpense\<close> takes an expense without \<^verbatim>\<open>id\<close> and \<^verbatim>\<open>createdAt\<close>; here it takes an
  \<open>expense\<close> and never reads these two fields. It throws the error of the answer.
\<close>

definition addExpense ::
  "(expense_insert, 'db) insert_op \<Rightarrow> string \<Rightarrow> expense \<Rightarrow> 'db \<Rightarrow> (js_error + unit) \<times> 'db" where
  "addExpense insert_expenses userId e db =
     (case insert_expenses
             [\<lparr>ins_id = None, ins_user_id = userId, ins_date = date e,
               ins_category = category e, ins_description = description e,
               ins_amount = amount e, ins_payment_method = paymentMethod e,
               ins_tag = tag e, ins_created_at = None\<rparr>] db of
        (Some error, db') \<Rightarrow> (Inl error, db')
      | (None, db') \<Rightarrow> (Inr (), db'))"

text \<open>
  \<^verbatim>\<open>Partial<Expense>\<close>: every field may be missing. The tests on \<^verbatim>\<open>date\<close>,
  \<^verbatim>\<open>description\<close>, \<^verbatim>\<open>category\<close> and \<^verbatim>\<open>paymentMethod\<close> are tests of truthiness: an
  empty string is dropped like a missing field, and a category or a payment method is
  never an empty string. \<^verbatim>\<open>amount\<close> and \<^verbatim>\<open>tag\<close> are copied when not \<^verbatim>\<open>undefined\<close>.
  \<^verbatim>\<open>id\<close> and \<^verbatim>\<open>createdAt\<close> are never copied.
\<close>

record partial_expense =
  p_id :: "string option"
  p_date :: "string option"
  p_category :: "category option"
  p_description :: "string option"
  p_amount :: "real option"
  p_paymentMethod :: "paymentMethod option"
  p_tag :: "string option"
  p_createdAt :: "string option"

definition truthy :: "string option \<Rightarrow> string option" where
  "truthy v = (case v of None \<Rightarrow> None | Some s \<Rightarrow> if s = [] then None else Some s)"

definition updates_of :: "partial_expense \<Rightarrow> expense_updates" where
  "updates_of updatedExpense =
     \<lparr>u_date = truthy (p_date updatedExpense),
      u_category = p_category updatedExpense,
      u_description = truthy (p_description updatedExpense),
      u_amount = p_amount updatedExpense,
      u_payment_method = p_paymentMethod updatedExpense,
      u_tag = p_tag updatedExpense\<rparr>"

definition updateExpense ::
  "'db update_op \<Rightarrow> string \<Rightarrow> partial_expense \<Rightarrow> 'db \<Rightarrow> (js_error + unit) \<times> 'db" where
  "updateExpense update_eq_id i updatedExpense db =
     (case update_eq_id (updates_of updatedExpense) i db of
        (Some error, db') \<Rightarrow> (Inl error, db')
      | (None, db') \<Rightarrow> (Inr (), db'))"

text \<open>
  The contract of the store for \<^verbatim>\<open>update(updates).eq("id", id)\<close> on the table of
  expenses, as the schema of the repository declares it: the policy
  \<^verbatim>\<open>"Users can update their own expenses" ... FOR UPDATE USING (auth.uid() = user_id)\<close>
  lets the request see only the rows of the signed-in user \<open>caller\<close>; on the rows of
  the caller with that id the columns that the update object holds are set, and
  nothing else changes. A request that matches no row changes nothing and is no error.
  \<open>answer\<close> is the error of a request that fails as a whole (the network, the
  service), in which case no row changes.
\<close>

record expense_row =
  row_id :: string
  user_id :: string
  row_date :: string
  row_category :: category
  row_description :: string
  row_amount :: real
  payment_method :: paymentMethod
  row_tag :: "string option"
  created_at :: string

definition set_column :: "'a option \<Rightarrow> 'a \<Rightarrow> 'a" where
  "set_column new old = (case new of None \<Rightarrow> old | Some v \<Rightarrow> v)"

definition apply_updates :: "expense_updates \<Rightarrow> expense_row \<Rightarrow> expense_row" where
  "apply_updates u r =
     r\<lparr>row_date := set_column (u_date u) (row_date r),
       row_category := set_column (u_category u) (row_category r),
       row_description := set_column (u_description u) (row_description r),
       row_amount := set_column (u_amount u) (row_amount r),
       payment_method := set_column (u_payment_method u) (payment_method r),
       row_tag := (case u_tag u of None \<Rightarrow> row_tag r | Some t \<Rightarrow> Some t)\<rparr>"

definition table_update :: "string \<Rightarrow> js_error option \<Rightarrow> (expense_row list) update_op" where
  "table_update caller answer u i rows =
     (case answer of
        Some error \<Rightarrow> (Some error, rows)
      | None \<Rightarrow>
          (None, map (\<lambda>r. if row_id r = i \<and> user_id r = caller then apply_updates u r else r)
                   rows))"

text \<open>A store that keeps every row it is sent and accepts all of them.\<close>

definition keep_rows :: "('row, 'row list) insert_op" where
  "keep_rows rows db = (None, db @ rows)"

subsection \<open>The migration: \<^verbatim>\<open>migrateLocalStorageToSupabase\<close> and \<^verbatim>\<open>hasLocalStorageData\<close>\<close>

text \<open>
  The result object of the migration: \<^verbatim>\<open>{ success: true, expensesCount, budgetsCount }\<close>
  or \<^verbatim>\<open>{ success: false, error }\<close>.
\<close>

datatype migration_result = Success nat nat | Failure js_error

definition expense_to_insert :: "string \<Rightarrow> expense \<Rightarrow> expense_insert" where
  "expense_to_insert userId e =
     \<lparr>ins_id = Some (id_e e), ins_user_id = userId, ins_date = date e,
      ins_category = category e, ins_description = description e,
      ins_amount = amount e, ins_payment_method = paymentMethod e,
      ins_tag = tag e, ins_created_at = Some (createdAt e)\<rparr>"

definition budget_to_insert :: "string \<Rightarrow> monthlyBudget \<Rightarrow> budget_insert" where
  "budget_to_insert userId b =
     \<lparr>b_user_id = userId, b_month = budget_month b, b_amount = budget_amount b\<rparr>"

text \<open>
  The two guarded inserts of the \<^verbatim>\<open>try\<close> block: with nothing to insert the store is
  not called and there is no error.
\<close>

definition migrate_expenses ::
  "(expense_insert, 'db) insert_op \<Rightarrow> string \<Rightarrow> expense list \<Rightarrow> 'db \<Rightarrow> js_error option \<times> 'db" where
  "migrate_expenses insert_expenses userId localExpenses db =
     (if length localExpenses > 0
      then insert_expenses (map (expense_to_insert userId) localExpenses) db
      else (None, db))"

definition migrate_budgets ::
  "(budget_insert, 'db) insert_op \<Rightarrow> string \<Rightarrow> monthlyBudget list \<Rightarrow> 'db \<Rightarrow> js_error option \<times> 'db" where
  "migrate_budgets insert_budgets userId localBudgets db =
     (if length localBudgets > 0
      then insert_budgets (map (budget_to_insert userId) localBudgets) db
      else (None, db))"

text \<open>
  The body of the \<^verbatim>\<open>try\<close> block on the state (local storage, remote store): \<open>Inl\<close> is
  an exception thrown inside it, \<open>Inr\<close> the object it returns.
\<close>

definition migrate_try ::
  "json \<Rightarrow> (expense_insert, 'db) insert_op \<Rightarrow> (budget_insert, 'db) insert_op \<Rightarrow> string \<Rightarrow>
   localStorage \<times> 'db \<Rightarrow> (js_error + migration_result) \<times> localStorage \<times> 'db" where
  "migrate_try js insert_expenses insert_budgets userId st =
     (let ls = fst st; db = snd st in
      case storage_getExpenses js ls of
        Inl e \<Rightarrow> (Inl e, ls, db)
      | Inr localExpenses \<Rightarrow>
         (case storage_getBudgets js ls of
            Inl e \<Rightarrow> (Inl e, ls, db)
          | Inr localBudgets \<Rightarrow>
             (case migrate_expenses insert_expenses userId localExpenses db of
                (Some expensesError, db1) \<Rightarrow> (Inl expensesError, ls, db1)
              | (None, db1) \<Rightarrow>
                 (case migrate_budgets insert_budgets userId localBudgets db1 of
                    (Some budgetsError, db2) \<Rightarrow> (Inl budgetsError, ls, db2)
                  | (None, db2) \<Rightarrow>
                     (Inr (Success (length localExpenses) (length localBudgets)),
                      setItem ''migrated'' ''true''
                        (removeItem ''expense-tracker-budgets''
                          (removeItem ''expense-tracker-expenses'' ls)),
                      db2)))))"

text \<open>
  The function with its \<^verbatim>\<open>catch\<close>, which logs the exception and returns the failure
  object. An \<^verbatim>\<open>async\<close> function resolves with what it returns.
\<close>

definition migrateLocalStorageToSupabase ::
  "json \<Rightarrow> (expense_insert, 'db) insert_op \<Rightarrow> (budget_insert, 'db) insert_op \<Rightarrow> string \<Rightarrow>
   localStorage \<times> 'db \<Rightarrow> migration_result promise \<times> localStorage \<times> 'db" where
  "migrateLocalStorageToSupabase js insert_expenses insert_budgets userId st =
     (case migrate_try js insert_expenses insert_budgets userId st of
        (Inr result, st') \<Rightarrow> (Resolved result, st')
      | (Inl error, st') \<Rightarrow> (Resolved (Failure error), st'))"



section \<open>The dashboard's migration dialog: \<^verbatim>\<open>src/pages/Dashboard.tsx\<close>\<close>





text \<open>
  The mutation behind the button "Import Data": the function throws without a user
  and otherwise returns the promise of the migration; the library then calls
  \<^verbatim>\<open>onSuccess\<close> when the promise resolved and \<^verbatim>\<open>onError\<close> when it rejected.
\<close>

definition mutationFn ::
  "json \<Rightarrow> (expense_insert, 'db) insert_op \<Rightarrow> (budget_insert, 'db) insert_op \<Rightarrow> string option \<Rightarrow>
   localStorage \<times> 'db \<Rightarrow> migration_result promise \<times> localStorage \<times> 'db" where
  "mutationFn js insert_expenses insert_budgets user st =
     (case user of
        None \<Rightarrow> (Rejected NoUser, st)
      | Some u \<Rightarrow> migrateLocalStorageToSupabase js insert_expenses insert_budgets u st)"

datatype callback = OnSuccess | OnError

definition settled :: "'a promise \<Rightarrow> callback" where
  "settled p = (case p of Resolved r \<Rightarrow> OnSuccess | Rejected e \<Rightarrow> OnError)"


section \<open>The add-expense form: \<^verbatim>\<open>src/pages/AddExpense.tsx\<close>\<close>

text \<open>
  The fields of the form are the component's state; the amount and the tag are texts.
  \<^verbatim>\<open>parseFloat\<close> is a parameter: \<open>None\<close> is \<^verbatim>\<open>NaN\<close>. \<open>trim\<close> removes the ASCII white
  space at both ends (the white space of Unicode beyond ASCII is not modelled).
  \<^verbatim>\<open>handleSubmit\<close> shows a message and returns when the amount is not a positive number
  or the trimmed description is empty, and only otherwise calls the adapter.
\<close>

definition is_space :: "char \<Rightarrow> bool" where
  "is_space c = (c \<in> set [CHR '' '', CHR 0x09, CHR 0x0A, CHR 0x0B, CHR 0x0C, CHR 0x0D])"

definition trim :: "string \<Rightarrow> string" where
  "trim s = rev (dropWhile is_space (rev (dropWhile is_space s)))"

record form =
  f_date :: string
  f_category :: category
  f_description :: string
  f_amount :: string
  f_paymentMethod :: paymentMethod
  f_tag :: string

datatype submit_outcome = Toast_error string | Mutated "js_error + unit"

definition handleSubmit ::
  "(string \<Rightarrow> real option) \<Rightarrow> (expense_insert, 'db) insert_op \<Rightarrow> 'db update_op \<Rightarrow> string \<Rightarrow>
   expense option \<Rightarrow> form \<Rightarrow> 'db \<Rightarrow> submit_outcome \<times> 'db" where
  "handleSubmit parseFloat insert_expenses update_eq_id userId editingExpense f db =
     (case parseFloat (f_amount f) of
        None \<Rightarrow> (Toast_error ''Please enter a valid amount'', db)
      | Some numAmount \<Rightarrow>
         if numAmount \<le> 0 then (Toast_error ''Please enter a valid amount'', db)
         else if trim (f_description f) = [] then (Toast_error ''Please enter a description'', db)
         else
          (let newTag = (if trim (f_tag f) = [] then None else Some (trim (f_tag f))) in
           case editingExpense of
             Some ex \<Rightarrow>
               (let r = updateExpense update_eq_id (id_e ex)
                          \<lparr>p_id = None, p_date = Some (f_date f),
                           p_category = Some (f_category f),
                           p_description = Some (trim (f_description f)),
                           p_amount = Some numAmount,
                           p_paymentMethod = Some (f_paymentMethod f),
                           p_tag = newTag, p_createdAt = None\<rparr> db
                in (Mutated (fst r), snd r))
           | None \<Rightarrow>
               (let r = addExpense insert_expenses userId
                          \<lparr>id_e = [], date = f_date f, category = f_category f,
                           description = trim (f_description f), amount = numAmount,
                           paymentMethod = f_paymentMethod f, tag = newTag,
                           createdAt = []\<rparr> db
                in (Mutated (fst r), snd r))))"


section \<open>Sample inputs\<close>

definition sample_expense :: "string \<Rightarrow> category \<Rightarrow> real \<Rightarrow> expense" where
  "sample_expense d c a =
     \<lparr>id_e = ''e'', date = d, category = c, description = ''sample'', amount = a,
      paymentMethod = Cash, tag = None, createdAt = ''2024-01-01T00:00:00Z''\<rparr>"

text \<open>Noon of the 31st of March 2024.\<close>

definition sample_now :: jsDate where
  "sample_now = \<lparr>getFullYear = 2024, getMonth = 2, getDate = 31, msOfDay = 43200000\<rparr>"

text \<open>
  A device whose local storage holds two expenses and one budget and no completion
  flag; a remote store that keeps the expense rows it is sent and answers every insert
  of budgets with an error.
\<close>

definition sample_json :: json where
  "sample_json =
     \<lparr>parse_expenses = (\<lambda>s. if s = ''[e1,e2]''
          then Inr [sample_expense ''2024-01-10'' Food 400, sample_expense ''2024-03-31'' Rent 600]
          else Inl (SyntaxError s)),
      parse_budgets = (\<lambda>s. if s = ''[b1]''
          then Inr [\<lparr>budget_month = ''2024-03'', budget_amount = 1000\<rparr>]
          else Inl (SyntaxError s))\<rparr>"

definition sample_local :: localStorage where
  "sample_local = [EXPENSES_KEY \<mapsto> ''[e1,e2]'', BUDGETS_KEY \<mapsto> ''[b1]'']"

definition accept_expenses ::
  "(expense_insert, expense_insert list \<times> budget_insert list) insert_op" where
  "accept_expenses rows db = (None, (fst db @ rows, snd db))"

definition reject_budgets ::
  "(budget_insert, expense_insert list \<times> budget_insert list) insert_op" where
  "reject_budgets rows db = (Some (PostgrestError ''insert into monthly_budgets failed''), db)"

definition sample_row :: expense_row where
  "sample_row =
     \<lparr>row_id = ''e'', user_id = ''u1'', row_date = ''2024-03-01'', row_category = Food,
      row_description = ''sample'', row_amount = 100, payment_method = Cash,
      row_tag = Some ''lunch'', created_at = ''2024-03-01T12:00:00Z''\<rparr>"




section \<open>Lemmas\<close>

lemma foldl_add_sum_list:
  "foldl (\<lambda>sum e. sum + f e) (a::real) xs = a + sum_list (map f xs)"
  by (induction xs arbitrary: a) simp_all

lemma getTotalAmount_sum_list: "getTotalAmount es = sum_list (map amount es)"
  by (simp add: getTotalAmount_def foldl_add_sum_list)








subsection \<open>The entry of a category\<close>








subsection \<open>The months of the trend\<close>

lemma monthly_loop_unfold:
  "monthly_loop now E (int n - 1) r =
     r @ map (\<lambda>k. month_entry now E (int n - 1 - int k)) [0..<n]"
proof (induction n arbitrary: r)
  case 0
  show ?case by (simp add: monthly_loop.simps [of now E "- 1" r])
next
  case (Suc n)
  have "monthly_loop now E (int (Suc n) - 1) r =
        monthly_loop now E (int n - 1) (r @ [month_entry now E (int n)])"
    using monthly_loop.simps [of now E "int n" r] by simp
  also have "\<dots> = (r @ [month_entry now E (int n)]) @
       map (\<lambda>k. month_entry now E (int n - 1 - int k)) [0..<n]"
    by (rule Suc.IH)
  also have "\<dots> = r @ map (\<lambda>k. month_entry now E (int (Suc n) - 1 - int k)) [0..<Suc n]"
    by (simp add: upt_conv_Cons [of 0 "Suc n"] map_Suc_upt [symmetric] diff_diff_eq del: upt_Suc)
  finally show ?case .
qed

lemma getMonthlyTotals_map:
  "getMonthlyTotals now E (int n) =
     map (\<lambda>k. month_entry now E (int n - 1 - int k)) [0..<n]"
  using monthly_loop_unfold [of now E n "[]"] by (simp add: getMonthlyTotals_def)

lemma parseISO_valid:
  "parseISO s = Some x \<Longrightarrow>
     getMonth x < 12 \<and> 1 \<le> getDate x \<and>
     getDate x \<le> daysInMonth (getFullYear x) (getMonth x) \<and> msOfDay x = 0"
  by (auto simp: parseISO_def split: if_splits option.splits)

lemma date_le_startOfMonth:
  "1 \<le> getDate x \<Longrightarrow>
   date_le (startOfMonth d) x =
     (getFullYear d < getFullYear x \<or>
      (getFullYear d = getFullYear x \<and> getMonth d \<le> getMonth x))"
  unfolding date_le_def startOfMonth_def by simp linarith

lemma date_le_endOfMonth:
  "msOfDay x = 0 \<Longrightarrow>
   date_le x (endOfMonth d) =
     (getFullYear x < getFullYear d \<or>
      (getFullYear x = getFullYear d \<and>
        (getMonth x < getMonth d \<or>
         (getMonth x = getMonth d \<and>
            getDate x \<le> daysInMonth (getFullYear d) (getMonth d)))))"
  unfolding date_le_def endOfMonth_def by simp linarith

lemma between_bounds:
  "((yd < yx \<or> (yd = yx \<and> md \<le> mx)) \<and>
    (yx < yd \<or> (yx = yd \<and> (mx < md \<or> (mx = md \<and> P))))) =
   (yx = yd \<and> mx = md \<and> P)"
  for yd yx :: int and md mx :: nat
  by auto

lemma in_month_iff:
  "in_month d e = dated_in (getFullYear d) (getMonth d) e"
proof (cases "parseISO (date e)")
  case None
  then show ?thesis by (simp add: in_month_def dated_in_def)
next
  case (Some x)
  from parseISO_valid [OF Some] have v: "1 \<le> getDate x" "msOfDay x = 0"
    "getDate x \<le> daysInMonth (getFullYear x) (getMonth x)" by simp_all
  have "in_month d e =
      (getFullYear x = getFullYear d \<and> getMonth x = getMonth d \<and>
       getDate x \<le> daysInMonth (getFullYear d) (getMonth d))"
    unfolding in_month_def Some option.case
      date_le_startOfMonth [OF v(1)] date_le_endOfMonth [OF v(2)]
    by (rule between_bounds)
  also have "\<dots> = (getFullYear x = getFullYear d \<and> getMonth x = getMonth d)"
    using v(3) by auto
  finally show ?thesis by (simp add: dated_in_def Some)
qed

lemma subMonths_monthIndex:
  "getMonth d < 12 \<Longrightarrow> monthIndex (subMonths d n) = monthIndex d - n"
  by (simp add: subMonths_def monthIndex_def Let_def)

lemma subMonths_month_valid:
  "getMonth d < 12 \<Longrightarrow> getMonth (subMonths d n) < 12"
  by (simp add: subMonths_def monthIndex_def Let_def nat_less_iff)

lemma total_month_entry:
  "total_v (month_entry now E i) =
     sum_list (map amount (filter (dated_in (getFullYear (subMonths now i))
        (getMonth (subMonths now i))) E))"
proof -
  have "in_month d = dated_in (getFullYear d) (getMonth d)" for d
    by (rule ext) (rule in_month_iff)
  then show ?thesis
    by (simp add: month_entry_def Let_def getTotalAmount_sum_list)
qed

lemma upt_12: "[0..<12] = [0, 1, 2, 3, 4, 5, 6, 7, 8, 9, 10, 11::nat]"
  by (simp add: upt_rec)

lemma sample_dated_1:
  "dated_in y m (sample_expense ''2024-01-10'' c a) = (y = 2024 \<and> m = 0)"
  by (auto simp add: dated_in_def sample_expense_def parseISO_def digit_of_def daysInMonth_def
      isLeapYear_def)

lemma sample_dated_2:
  "dated_in y m (sample_expense ''2024-03-31'' c a) = (y = 2024 \<and> m = 2)"
  by (auto simp add: dated_in_def sample_expense_def parseISO_def digit_of_def daysInMonth_def
      isLeapYear_def)

lemma sample_amount: "amount (sample_expense d c a) = a"
  by (simp add: sample_expense_def)

lemma sample_months:
  "map (\<lambda>k. (getFullYear (subMonths sample_now (11 - int k)),
              getMonth (subMonths sample_now (11 - int k)))) [0..<12] =
   [(2023, 3), (2023, 4), (2023, 5), (2023, 6), (2023, 7), (2023, 8), (2023, 9), (2023, 10),
    (2023, 11), (2024, 0), (2024, 1), (2024, 2)]"
  by (simp add: upt_12 subMonths_def monthIndex_def sample_now_def Let_def)

lemma sample_totals: "map total_v (getMonthlyTotals sample_now
     [sample_expense ''2024-01-10'' Food 400, sample_expense ''2024-03-31'' Rent 600] 12)
   = [0,0,0,0,0,0,0,0,0,400,0,600]"
proof -
  have "getMonthlyTotals sample_now E 12 = map (\<lambda>k. month_entry sample_now E (11 - int k)) [0..<12]"
    for E
    using getMonthlyTotals_map [of sample_now E 12] by simp
  then show ?thesis
    using sample_months
    by (simp add: upt_12 total_month_entry sample_dated_1 sample_dated_2 sample_amount)
qed

lemma getMonthlyTotals_entries:
  "getMonthlyTotals now E monthsBack =
     map (\<lambda>k. month_entry now E (monthsBack - 1 - int k)) [0..<nat monthsBack]"
proof (cases "0 \<le> monthsBack")
  case True
  then show ?thesis
    using getMonthlyTotals_map [of now E "nat monthsBack"] by simp
next
  case False
  then show ?thesis
    by (simp add: getMonthlyTotals_def monthly_loop.simps [of now E "monthsBack - 1" "[]"])
qed

lemma sample_label:
  "format_MMM_yyyy (subMonths sample_now 2) = ''Jan 2024''"
  by (simp add: format_MMM_yyyy_def subMonths_def monthIndex_def sample_now_def Let_def
      monthNames_def addLeadingZeros_def digit_char_def)

lemma filter_positive_of_nonzero:
  "filter (\<lambda>t. 0 < t) xs = filter (\<lambda>t. 0 < t) (filter (\<lambda>t. t \<noteq> 0) xs)"
  for xs :: "real list"
  by (induction xs) auto

lemma sample_valid: "valid_date sample_now"
  by (simp add: valid_date_def sample_now_def daysInMonth_def)



subsection \<open>The migration and the dialog\<close>

lemma migrate_try_failure:
  assumes "storage_getExpenses js ls = Inr localExpenses"
    and "storage_getBudgets js ls = Inr localBudgets"
    and "migrate_expenses ins_e userId localExpenses db = (expensesError, db1)"
    and "migrate_budgets ins_b userId localBudgets db1 = (budgetsError, db2)"
    and "expensesError = Some err \<or> (expensesError = None \<and> budgetsError = Some err)"
  shows "migrate_try js ins_e ins_b userId (ls, db) =
           (Inl err, ls, if expensesError = None then db2 else db1)"
  using assms by (auto simp: migrate_try_def Let_def)

lemma migrate_outcome:
  "fst (migrateLocalStorageToSupabase js ins_e ins_b userId st) =
     (case fst (migrate_try js ins_e ins_b userId st) of
        Inr result \<Rightarrow> Resolved result
      | Inl e \<Rightarrow> Resolved (Failure e))"
  by (cases "migrate_try js ins_e ins_b userId st")
    (simp add: migrateLocalStorageToSupabase_def split: sum.splits)

lemma sample_keys: "EXPENSES_KEY \<noteq> BUDGETS_KEY" "EXPENSES_KEY \<noteq> ''migrated''"
  "BUDGETS_KEY \<noteq> ''migrated''"
  by (simp_all add: EXPENSES_KEY_def BUDGETS_KEY_def)

lemma sample_getExpenses:
  "storage_getExpenses sample_json sample_local =
     Inr [sample_expense ''2024-01-10'' Food 400, sample_expense ''2024-03-31'' Rent 600]"
  by (simp add: storage_getExpenses_def sample_json_def sample_local_def sample_keys)

lemma sample_getBudgets:
  "storage_getBudgets sample_json sample_local =
     Inr [\<lparr>budget_month = ''2024-03'', budget_amount = 1000\<rparr>]"
  by (simp add: storage_getBudgets_def sample_json_def sample_local_def sample_keys)

lemma sample_flag: "sample_local ''migrated'' = None"
  using sample_keys by (simp add: sample_local_def)






subsection \<open>Rounded additions\<close>











































section \<open>Claims\<close>

text \<open>
  C3. \<^verbatim>\<open>getPercentageChange(current, previous)\<close> is 100 when the previous value is 0
  and the current one is positive, 0 when the previous value is 0 and the current one
  is not positive, and \<open>(current - previous) / previous * 100\<close> otherwise; the four
  values the specification lists are those of the function.
\<close>

theorem getPercentageChange_spec:
  "(previous = 0 \<and> current > 0 \<longrightarrow> getPercentageChange current previous = 100) \<and>
   (previous = 0 \<and> current \<le> 0 \<longrightarrow> getPercentageChange current previous = 0) \<and>
   (previous \<noteq> 0 \<longrightarrow>
      getPercentageChange current previous = (current - previous) / previous * 100) \<and>
   getPercentageChange 0 0 = 0 \<and>
   getPercentageChange 100 0 = 100 \<and>
   getPercentageChange 50 100 = - 50 \<and>
   getPercentageChange 150 100 = 50"
  by (simp add: getPercentageChange_def)

theorem getPercentageChange_spec_witness:
  "getPercentageChange 7 0 = 100 \<and> getPercentageChange (- 3) 0 = 0 \<and>
   getPercentageChange 30 40 = - 25"
  using getPercentageChange_spec [of 0 7] getPercentageChange_spec [of 0 "- 3"]
    getPercentageChange_spec [of 40 30]
  by simp






text \<open>
  C4. For every list of expenses, every valid reference date \<open>now\<close> and every
  \<open>monthsBack\<close>, \<^verbatim>\<open>getMonthlyTotals\<close> returns \<open>monthsBack\<close> entries (none when
  \<open>monthsBack\<close> is not positive). With \<open>d\<close> the date \<open>monthsBack - 1 - k\<close> months before
  \<open>now\<close>, entry \<open>k\<close> is that of the calendar month of \<open>d\<close>, which lies exactly that many
  months before the month of \<open>now\<close>: so the entries go month by month, oldest first, and
  the last one is the month of \<open>now\<close>. The label of the entry is the formatted month and
  its total is the sum of the amounts of the expenses dated in that calendar month
  (0 when there is none); with no expenses every total is 0.
\<close>

theorem getMonthlyTotals_spec:
  assumes "valid_date now"
  shows "length (getMonthlyTotals now E monthsBack) = nat monthsBack \<and>
    (\<forall>k<nat monthsBack.
       let d = subMonths now (monthsBack - 1 - int k);
           entry = getMonthlyTotals now E monthsBack ! k
       in getMonth d < 12 \<and>
          monthIndex d = monthIndex now - (monthsBack - 1 - int k) \<and>
          month entry = format_MMM_yyyy d \<and>
          total_v entry =
            sum_list (map amount (filter (dated_in (getFullYear d) (getMonth d)) E))) \<and>
    map total_v (getMonthlyTotals now [] monthsBack) = replicate (nat monthsBack) 0"
proof -
  from assms have m: "getMonth now < 12" by (simp add: valid_date_def)
  have len: "length (getMonthlyTotals now E monthsBack) = nat monthsBack"
    by (simp add: getMonthlyTotals_entries)
  have nth: "getMonthlyTotals now E monthsBack ! k =
      month_entry now E (monthsBack - 1 - int k)" if "k < nat monthsBack" for k
    using that by (simp add: getMonthlyTotals_entries)
  have lab: "month (month_entry now E i) = format_MMM_yyyy (subMonths now i)" for i
    by (simp add: month_entry_def Let_def)
  have empty: "map total_v (getMonthlyTotals now [] monthsBack) = replicate (nat monthsBack) 0"
    by (simp add: getMonthlyTotals_entries total_month_entry map_replicate_const comp_def)
  show ?thesis
    using len empty
    by (simp add: Let_def nth lab total_month_entry subMonths_monthIndex [OF m]
        subMonths_month_valid [OF m])
qed

theorem getMonthlyTotals_spec_witness:
  "valid_date sample_now \<and>
   length (getMonthlyTotals sample_now
     [sample_expense ''2024-01-10'' Food 400, sample_expense ''2024-03-31'' Rent 600] 12) = 12 \<and>
   month (getMonthlyTotals sample_now
     [sample_expense ''2024-01-10'' Food 400, sample_expense ''2024-03-31'' Rent 600] 12 ! 9)
     = ''Jan 2024'' \<and>
   total_v (getMonthlyTotals sample_now
     [sample_expense ''2024-01-10'' Food 400, sample_expense ''2024-03-31'' Rent 600] 12 ! 9)
     = 400"
proof -
  let ?E = "[sample_expense ''2024-01-10'' Food 400, sample_expense ''2024-03-31'' Rent 600]"
  note spec = getMonthlyTotals_spec [OF sample_valid, of ?E 12]
  from spec have len: "length (getMonthlyTotals sample_now ?E 12) = 12" by simp
  from spec have "\<forall>k<12. month (getMonthlyTotals sample_now ?E 12 ! k) =
       format_MMM_yyyy (subMonths sample_now (11 - int k))"
    by (simp add: Let_def)
  then have lab: "month (getMonthlyTotals sample_now ?E 12 ! 9) = ''Jan 2024''"
    using sample_label by simp
  have "total_v (getMonthlyTotals sample_now ?E 12 ! 9) =
      map total_v (getMonthlyTotals sample_now ?E 12) ! 9"
    using len by simp
  then have tot: "total_v (getMonthlyTotals sample_now ?E 12 ! 9) = 400"
    by (simp add: sample_totals)
  from sample_valid len lab tot show ?thesis by simp
qed

text \<open>
  C6. The average monthly spend is the arithmetic mean of those of the twelve monthly
  totals that are strictly positive, and 0 when none is. When the totals that are not
  zero are 400 and 600, it is 500.
\<close>

theorem getAverageMonthlySpend_spec:
  "getAverageMonthlySpend now E =
     (let positive = filter (\<lambda>t. 0 < t) (map total_v (getMonthlyTotals now E 12))
      in if positive = [] then 0 else sum_list positive / real (length positive)) \<and>
   (filter (\<lambda>t. t \<noteq> 0) (map total_v (getMonthlyTotals now E 12)) = [400, 600] \<longrightarrow>
      getAverageMonthlySpend now E = 500)"
proof -
  let ?ts = "map total_v (getMonthlyTotals now E 12)"
  let ?pos = "filter (\<lambda>t. 0 < t) ?ts"
  have pos: "?pos = map total_v (filter (\<lambda>m. total_v m > 0) (getMonthlyTotals now E 12))"
    by (simp add: filter_map comp_def)
  have mean: "getAverageMonthlySpend now E =
      (if ?pos = [] then 0 else sum_list ?pos / real (length ?pos))"
    unfolding pos by (simp add: getAverageMonthlySpend_def Let_def foldl_add_sum_list)
  have "getAverageMonthlySpend now E = 500"
    if "filter (\<lambda>t. t \<noteq> 0) ?ts = [400, 600]"
  proof -
    have "?pos = [400, 600]"
      using filter_positive_of_nonzero [of ?ts] that by simp
    with mean show ?thesis by simp
  qed
  with mean show ?thesis by (simp add: Let_def)
qed

theorem getAverageMonthlySpend_spec_witness:
  "filter (\<lambda>t. t \<noteq> 0) (map total_v (getMonthlyTotals sample_now
     [sample_expense ''2024-01-10'' Food 400, sample_expense ''2024-03-31'' Rent 600] 12))
     = [400, 600] \<and>
   getAverageMonthlySpend sample_now
     [sample_expense ''2024-01-10'' Food 400, sample_expense ''2024-03-31'' Rent 600] = 500"
proof -
  let ?E = "[sample_expense ''2024-01-10'' Food 400, sample_expense ''2024-03-31'' Rent 600]"
  have nz: "filter (\<lambda>t. t \<noteq> 0) (map total_v (getMonthlyTotals sample_now ?E 12)) = [400, 600]"
    by (simp add: sample_totals)
  with getAverageMonthlySpend_spec [of sample_now ?E] show ?thesis by simp
qed

text \<open>
  C1. When the bulk insert of the expenses, or (the expenses inserted or none to insert)
  the bulk insert of the budgets, is answered with an error, the migration changes
  nothing in the local storage: the entries of the expenses and of the budgets are as
  before and the flag \<^verbatim>\<open>migrated\<close> is as before, so it is not set; and the caller
  receives the failure object that carries the error of the store.
\<close>

theorem migration_failure_keeps_local_cache:
  assumes "storage_getExpenses js ls = Inr localExpenses"
    and "storage_getBudgets js ls = Inr localBudgets"
    and "migrate_expenses ins_e userId localExpenses db = (expensesError, db1)"
    and "migrate_budgets ins_b userId localBudgets db1 = (budgetsError, db2)"
    and "expensesError = Some err \<or> (expensesError = None \<and> budgetsError = Some err)"
  shows "fst (migrateLocalStorageToSupabase js ins_e ins_b userId (ls, db)) =
           Resolved (Failure err) \<and>
         fst (snd (migrateLocalStorageToSupabase js ins_e ins_b userId (ls, db))) = ls \<and>
         fst (snd (migrateLocalStorageToSupabase js ins_e ins_b userId (ls, db))) EXPENSES_KEY =
           ls EXPENSES_KEY \<and>
         fst (snd (migrateLocalStorageToSupabase js ins_e ins_b userId (ls, db))) BUDGETS_KEY =
           ls BUDGETS_KEY \<and>
         fst (snd (migrateLocalStorageToSupabase js ins_e ins_b userId (ls, db))) ''migrated'' =
           ls ''migrated''"
  using migrate_try_failure [OF assms]
  by (simp add: migrateLocalStorageToSupabase_def)

theorem migration_failure_keeps_local_cache_witness:
  "fst (migrateLocalStorageToSupabase sample_json accept_expenses reject_budgets ''u1''
          (sample_local, ([], []))) =
     Resolved (Failure (PostgrestError ''insert into monthly_budgets failed'')) \<and>
   fst (snd (migrateLocalStorageToSupabase sample_json accept_expenses reject_budgets ''u1''
          (sample_local, ([], [])))) = sample_local \<and>
   fst (snd (migrateLocalStorageToSupabase sample_json accept_expenses reject_budgets ''u1''
          (sample_local, ([], [])))) ''migrated'' = None"
proof -
  let ?rows = "map (expense_to_insert ''u1'')
      [sample_expense ''2024-01-10'' Food 400, sample_expense ''2024-03-31'' Rent 600]"
  have e: "migrate_expenses accept_expenses ''u1''
        [sample_expense ''2024-01-10'' Food 400, sample_expense ''2024-03-31'' Rent 600] ([], []) =
      (None, (?rows, []))"
    by (simp add: migrate_expenses_def accept_expenses_def)
  have b: "migrate_budgets reject_budgets ''u1''
        [\<lparr>budget_month = ''2024-03'', budget_amount = 1000\<rparr>] (?rows, []) =
      (Some (PostgrestError ''insert into monthly_budgets failed''), (?rows, []))"
    by (simp add: migrate_budgets_def reject_budgets_def)
  have f: "(None :: js_error option) = Some (PostgrestError ''insert into monthly_budgets failed'') \<or>
      ((None :: js_error option) = None \<and>
       Some (PostgrestError ''insert into monthly_budgets failed'') =
       Some (PostgrestError ''insert into monthly_budgets failed''))"
    by simp
  from migration_failure_keeps_local_cache [OF sample_getExpenses sample_getBudgets e b f]
  show ?thesis by (simp add: sample_flag)
qed

text \<open>
  C10. For every state of the local storage and every behaviour of the store, the
  promise of the migration resolves, with a success object or with a failure object,
  and never rejects; so the dashboard's mutation, with a signed-in user, always ends in
  \<^verbatim>\<open>onSuccess\<close>, and a caller learns of a failure from the \<^verbatim>\<open>success\<close> field only.
\<close>

theorem migration_always_resolves:
  "(\<exists>r. fst (migrateLocalStorageToSupabase js ins_e ins_b userId st) = Resolved r) \<and>
   ((\<exists>n m. fst (migrateLocalStorageToSupabase js ins_e ins_b userId st) = Resolved (Success n m)) \<or>
    (\<exists>e. fst (migrateLocalStorageToSupabase js ins_e ins_b userId st) = Resolved (Failure e))) \<and>
   (\<forall>e. fst (migrateLocalStorageToSupabase js ins_e ins_b userId st) \<noteq> Rejected e) \<and>
   settled (fst (mutationFn js ins_e ins_b (Some userId) st)) = OnSuccess"
proof -
  obtain r where r: "fst (migrateLocalStorageToSupabase js ins_e ins_b userId st) = Resolved r"
    by (cases "fst (migrate_try js ins_e ins_b userId st)") (simp_all add: migrate_outcome)
  moreover have "(\<exists>n m. r = Success n m) \<or> (\<exists>e. r = Failure e)"
    by (cases r) simp_all
  ultimately show ?thesis
    by (auto simp: settled_def mutationFn_def)
qed

theorem migration_always_resolves_witness:
  "fst (migrateLocalStorageToSupabase sample_json accept_expenses reject_budgets ''u1''
          (sample_local, ([], []))) =
     Resolved (Failure (PostgrestError ''insert into monthly_budgets failed'')) \<and>
   settled (fst (mutationFn sample_json accept_expenses reject_budgets (Some ''u1'')
          (sample_local, ([], [])))) = OnSuccess"
proof -
  have "fst (migrate_try sample_json accept_expenses reject_budgets ''u1''
          (sample_local, ([], []))) = Inl (PostgrestError ''insert into monthly_budgets failed'')"
    by (simp add: migrate_try_def Let_def sample_getExpenses sample_getBudgets
        migrate_expenses_def migrate_budgets_def accept_expenses_def reject_budgets_def)
  then have "fst (migrateLocalStorageToSupabase sample_json accept_expenses reject_budgets ''u1''
          (sample_local, ([], []))) =
     Resolved (Failure (PostgrestError ''insert into monthly_budgets failed''))"
    by (simp add: migrate_outcome)
  with migration_always_resolves [of sample_json accept_expenses reject_budgets "''u1''"
      "(sample_local, ([], []))"]
  show ?thesis by simp
qed




text \<open>
  C8. \<^verbatim>\<open>supabaseStorage.addExpense\<close> validates nothing: it submits one row with exactly
  the fields it is given, under the owner's id, whatever their values, and its result
  is the store's answer (it throws the store's error, if any). The checks are made by
  the submit handler of the add-expense form, before it calls the adapter: when the
  amount is not a number, or is not positive, or the trimmed description is empty, the
  handler shows a message and submits nothing; a row that the form does submit has a
  positive amount and the trimmed, non-empty description. Category and payment method
  are restricted by their types only.
\<close>

theorem addExpense_submits_unvalidated:
  "addExpense keep_rows userId e sent =
     (Inr (), sent @ [\<lparr>ins_id = None, ins_user_id = userId, ins_date = date e,
        ins_category = category e, ins_description = description e, ins_amount = amount e,
        ins_payment_method = paymentMethod e, ins_tag = tag e, ins_created_at = None\<rparr>]) \<and>
   fst (addExpense ins userId e db) =
     (case fst (ins [\<lparr>ins_id = None, ins_user_id = userId, ins_date = date e,
        ins_category = category e, ins_description = description e, ins_amount = amount e,
        ins_payment_method = paymentMethod e, ins_tag = tag e, ins_created_at = None\<rparr>] db) of
        Some err \<Rightarrow> Inl err
      | None \<Rightarrow> Inr ()) \<and>
   ((parseFloat (f_amount f) = None \<or> (\<exists>a. parseFloat (f_amount f) = Some a \<and> a \<le> 0) \<or>
     trim (f_description f) = []) \<longrightarrow>
      (\<exists>msg. handleSubmit parseFloat ins upd userId editing f db = (Toast_error msg, db))) \<and>
   (\<forall>row. snd (handleSubmit parseFloat keep_rows upd' userId None f sent) = sent @ [row] \<longrightarrow>
      0 < ins_amount row \<and> ins_description row \<noteq> [] \<and>
      ins_description row = trim (f_description f))"
proof -
  have a: "addExpense keep_rows userId e sent =
     (Inr (), sent @ [\<lparr>ins_id = None, ins_user_id = userId, ins_date = date e,
        ins_category = category e, ins_description = description e, ins_amount = amount e,
        ins_payment_method = paymentMethod e, ins_tag = tag e, ins_created_at = None\<rparr>])"
    for e
    by (simp add: addExpense_def keep_rows_def)
  have b: "fst (addExpense ins userId e db) =
     (case fst (ins [\<lparr>ins_id = None, ins_user_id = userId, ins_date = date e,
        ins_category = category e, ins_description = description e, ins_amount = amount e,
        ins_payment_method = paymentMethod e, ins_tag = tag e, ins_created_at = None\<rparr>] db) of
        Some err \<Rightarrow> Inl err
      | None \<Rightarrow> Inr ())"
    by (simp add: addExpense_def split: prod.splits option.splits)
  have c: "\<exists>msg. handleSubmit parseFloat ins upd userId editing f db = (Toast_error msg, db)"
    if "parseFloat (f_amount f) = None \<or> (\<exists>a. parseFloat (f_amount f) = Some a \<and> a \<le> 0) \<or>
     trim (f_description f) = []"
    using that by (auto simp: handleSubmit_def split: option.splits)
  have d: "0 < ins_amount row \<and> ins_description row \<noteq> [] \<and>
      ins_description row = trim (f_description f)"
    if "snd (handleSubmit parseFloat keep_rows upd' userId None f sent) = sent @ [row]" for row
    using that by (auto simp: handleSubmit_def Let_def a split: option.splits if_splits)
  from a b c d show ?thesis by blast
qed

theorem addExpense_submits_unvalidated_witness:
  "(\<exists>msg. handleSubmit (\<lambda>s. if s = ''-5'' then Some (- 5) else None)
      (keep_rows :: (expense_insert, expense_insert list) insert_op)
      (\<lambda>u i db. (None, db)) ''u1'' None
      \<lparr>f_date = ''2024-03-01'', f_category = Food, f_description = ''lunch'',
       f_amount = ''-5'', f_paymentMethod = Upi, f_tag = []\<rparr> [] = (Toast_error msg, [])) \<and>
   addExpense keep_rows ''u1'' (sample_expense ''2024-03-01'' Food 12) [] =
     (Inr (), [\<lparr>ins_id = None, ins_user_id = ''u1'', ins_date = ''2024-03-01'',
        ins_category = Food, ins_description = ''sample'', ins_amount = 12,
        ins_payment_method = Cash, ins_tag = None, ins_created_at = None\<rparr>])"
proof -
  let ?pf = "\<lambda>s. if s = ''-5'' then Some (- 5 :: real) else None"
  let ?f = "\<lparr>f_date = ''2024-03-01'', f_category = Food, f_description = ''lunch'',
       f_amount = ''-5'', f_paymentMethod = Upi, f_tag = []\<rparr>"
  note spec = addExpense_submits_unvalidated [of "''u1''" "sample_expense ''2024-03-01'' Food 12"
      "[]" keep_rows "[]" ?pf ?f "\<lambda>u i db. (None, db)" None "\<lambda>u i db. (None, db)"]
  have h: "?pf (f_amount ?f) = None \<or> (\<exists>a. ?pf (f_amount ?f) = Some a \<and> a \<le> 0) \<or>
     trim (f_description ?f) = []"
    by simp
  from spec h have "\<exists>msg. handleSubmit ?pf keep_rows (\<lambda>u i db. (None, db)) ''u1'' None ?f [] =
      (Toast_error msg, [])"
    by blast
  moreover from spec have "addExpense keep_rows ''u1'' (sample_expense ''2024-03-01'' Food 12) [] =
     (Inr (), [\<lparr>ins_id = None, ins_user_id = ''u1'', ins_date = ''2024-03-01'',
        ins_category = Food, ins_description = ''sample'', ins_amount = 12,
        ins_payment_method = Cash, ins_tag = None, ins_created_at = None\<rparr>])"
    by (simp add: sample_expense_def)
  ultimately show ?thesis by blast
qed

text \<open>
  The claim as the specification words it (the adapter rejects invalid fields before
  submission) fails: an expense with the amount -5 given to \<^verbatim>\<open>addExpense\<close> arrives at
  the store as a row with the amount -5.
\<close>

theorem addExpense_counterexample:
  "addExpense keep_rows ''u1'' (sample_expense ''2024-03-01'' Food (- 5)) [] =
     (Inr (), [\<lparr>ins_id = None, ins_user_id = ''u1'', ins_date = ''2024-03-01'',
        ins_category = Food, ins_description = ''sample'', ins_amount = - 5,
        ins_payment_method = Cash, ins_tag = None, ins_created_at = None\<rparr>]) \<and>
   \<not> 0 < amount (sample_expense ''2024-03-01'' Food (- 5))"
  by (simp add: addExpense_def keep_rows_def sample_expense_def)

text \<open>
  C9. For every id and every partial record of the updatable fields with well-formed
  values (no \<^verbatim>\<open>id\<close> and no \<^verbatim>\<open>createdAt\<close>, which the record model never changes, and
  no empty date or description), \<^verbatim>\<open>updateExpense(id, partialFields)\<close> updates exactly
  the supplied fields of the stored expense: when the store answers without an error,
  in every row of the caller with that id each supplied field has the supplied value
  and each field that is not supplied, as well as the id, the owner and the creation
  time, is as before, and every other row is unchanged; when the store answers with an
  error, the error is thrown and no row changes.
\<close>

theorem updateExpense_effect:
  assumes "p_id p = None" and "p_createdAt p = None"
    and "p_date p \<noteq> Some []" and "p_description p \<noteq> Some []"
  shows "(answer = None \<longrightarrow>
      fst (updateExpense (table_update caller answer) i p rows) = Inr () \<and>
      length (snd (updateExpense (table_update caller answer) i p rows)) = length rows \<and>
      (\<forall>k<length rows.
         let r = rows ! k; r' = snd (updateExpense (table_update caller answer) i p rows) ! k
         in if row_id r = i \<and> user_id r = caller
            then row_id r' = row_id r \<and> user_id r' = user_id r \<and>
                 created_at r' = created_at r \<and>
                 row_date r' = (case p_date p of None \<Rightarrow> row_date r | Some d \<Rightarrow> d) \<and>
                 row_category r' =
                   (case p_category p of None \<Rightarrow> row_category r | Some c \<Rightarrow> c) \<and>
                 row_description r' =
                   (case p_description p of None \<Rightarrow> row_description r | Some d \<Rightarrow> d) \<and>
                 row_amount r' = (case p_amount p of None \<Rightarrow> row_amount r | Some a \<Rightarrow> a) \<and>
                 payment_method r' =
                   (case p_paymentMethod p of None \<Rightarrow> payment_method r | Some m \<Rightarrow> m) \<and>
                 row_tag r' = (case p_tag p of None \<Rightarrow> row_tag r | Some t \<Rightarrow> Some t)
            else r' = r)) \<and>
     (\<forall>err. answer = Some err \<longrightarrow>
        updateExpense (table_update caller answer) i p rows = (Inl err, rows))"
proof -
  have upd: "updateExpense (table_update caller None) i p rows =
      (Inr (), map (\<lambda>r. if row_id r = i \<and> user_id r = caller
                          then apply_updates (updates_of p) r else r) rows)"
    by (simp add: updateExpense_def table_update_def)
  have fields: "row_id (apply_updates (updates_of p) r) = row_id r \<and>
      user_id (apply_updates (updates_of p) r) = user_id r \<and>
      created_at (apply_updates (updates_of p) r) = created_at r \<and>
      row_date (apply_updates (updates_of p) r) =
        (case p_date p of None \<Rightarrow> row_date r | Some d \<Rightarrow> d) \<and>
      row_category (apply_updates (updates_of p) r) =
        (case p_category p of None \<Rightarrow> row_category r | Some c \<Rightarrow> c) \<and>
      row_description (apply_updates (updates_of p) r) =
        (case p_description p of None \<Rightarrow> row_description r | Some d \<Rightarrow> d) \<and>
      row_amount (apply_updates (updates_of p) r) =
        (case p_amount p of None \<Rightarrow> row_amount r | Some a \<Rightarrow> a) \<and>
      payment_method (apply_updates (updates_of p) r) =
        (case p_paymentMethod p of None \<Rightarrow> payment_method r | Some m \<Rightarrow> m) \<and>
      row_tag (apply_updates (updates_of p) r) =
        (case p_tag p of None \<Rightarrow> row_tag r | Some t \<Rightarrow> Some t)" for r
    using assms(3,4)
    by (simp add: apply_updates_def updates_of_def set_column_def truthy_def split: option.splits)
  have ok: "fst (updateExpense (table_update caller None) i p rows) = Inr () \<and>
      length (snd (updateExpense (table_update caller None) i p rows)) = length rows \<and>
      (\<forall>k<length rows.
         let r = rows ! k; r' = snd (updateExpense (table_update caller None) i p rows) ! k
         in if row_id r = i \<and> user_id r = caller
            then row_id r' = row_id r \<and> user_id r' = user_id r \<and>
                 created_at r' = created_at r \<and>
                 row_date r' = (case p_date p of None \<Rightarrow> row_date r | Some d \<Rightarrow> d) \<and>
                 row_category r' =
                   (case p_category p of None \<Rightarrow> row_category r | Some c \<Rightarrow> c) \<and>
                 row_description r' =
                   (case p_description p of None \<Rightarrow> row_description r | Some d \<Rightarrow> d) \<and>
                 row_amount r' = (case p_amount p of None \<Rightarrow> row_amount r | Some a \<Rightarrow> a) \<and>
                 payment_method r' =
                   (case p_paymentMethod p of None \<Rightarrow> payment_method r | Some m \<Rightarrow> m) \<and>
                 row_tag r' = (case p_tag p of None \<Rightarrow> row_tag r | Some t \<Rightarrow> Some t)
            else r' = r)"
    unfolding upd using fields by (simp add: Let_def)
  have err: "updateExpense (table_update caller (Some err)) i p rows = (Inl err, rows)" for err
    by (simp add: updateExpense_def table_update_def)
  from ok err show ?thesis by auto
qed

theorem updateExpense_effect_witness:
  "snd (updateExpense (table_update ''u1'' None) ''e''
     \<lparr>p_id = None, p_date = None, p_category = Some Travel, p_description = None,
      p_amount = Some 250, p_paymentMethod = None, p_tag = None, p_createdAt = None\<rparr>
     [sample_row]) ! 0 =
   sample_row\<lparr>row_category := Travel, row_amount := 250\<rparr>"
proof -
  let ?p = "\<lparr>p_id = None, p_date = None, p_category = Some Travel, p_description = None,
      p_amount = Some 250, p_paymentMethod = None, p_tag = None, p_createdAt = None\<rparr>"
  have h: "p_id ?p = None" "p_createdAt ?p = None" "p_date ?p \<noteq> Some []"
    "p_description ?p \<noteq> Some []"
    by simp_all
  have "(0::nat) < length [sample_row]" by simp
  with updateExpense_effect [OF h, of None "''u1''" "''e''" "[sample_row]"]
  have "let r = [sample_row] ! 0;
          r' = snd (updateExpense (table_update ''u1'' None) ''e'' ?p [sample_row]) ! 0
      in if row_id r = ''e'' \<and> user_id r = ''u1''
         then row_id r' = row_id r \<and> user_id r' = user_id r \<and>
              created_at r' = created_at r \<and>
              row_date r' = (case p_date ?p of None \<Rightarrow> row_date r | Some d \<Rightarrow> d) \<and>
              row_category r' =
                (case p_category ?p of None \<Rightarrow> row_category r | Some c \<Rightarrow> c) \<and>
              row_description r' =
                (case p_description ?p of None \<Rightarrow> row_description r | Some d \<Rightarrow> d) \<and>
              row_amount r' = (case p_amount ?p of None \<Rightarrow> row_amount r | Some a \<Rightarrow> a) \<and>
              payment_method r' =
                (case p_paymentMethod ?p of None \<Rightarrow> payment_method r | Some m \<Rightarrow> m) \<and>
              row_tag r' = (case p_tag ?p of None \<Rightarrow> row_tag r | Some t \<Rightarrow> Some t)
         else r' = r"
    by blast
  then show ?thesis
    by (simp add: Let_def sample_row_def expense_row.equality)
qed

end
